theory Spec2Isabelle
  imports Main "HOL-Library.Sublist"
begin

section \<open>JavaScript values\<close>

text \<open>
  The values that flow through \<^verbatim>\<open>packages/config/src/utils.ts\<close>: module exports,
  backend results, resolver sources. \<open>JError\<close> is an \<^verbatim>\<open>Error\<close> instance that is not a
  \<^verbatim>\<open>GraphQLError\<close>, kept by its message; \<open>JGraphQLError\<close> is a \<^verbatim>\<open>GraphQLError\<close> with its
  message and its \<^verbatim>\<open>originalError\<close>. \<open>JFun\<close> is a function value, kept by a name. A plain
  object is the list of its own properties.
\<close>

datatype jsval =
    JUndefined
  | JNull
  | JBool bool
  | JNum int
  | JStr string
  | JFun string
  | JArr "jsval list"
  | JObj "(string \<times> jsval) list"
  | JError string
  | JGraphQLError string jsval

text \<open>A settled promise, or a call that may throw: \<open>Inl\<close> carries the thrown value.\<close>

type_synonym 'a result = "jsval + 'a"

definition bind_result :: "'e + 'a \<Rightarrow> ('a \<Rightarrow> 'e + 'b) \<Rightarrow> 'e + 'b" where
  "bind_result m f = (case m of Inl e \<Rightarrow> Inl e | Inr x \<Rightarrow> f x)"

text \<open>Truthiness, as \<^verbatim>\<open>||\<close>, \<^verbatim>\<open>!\<close> and \<^verbatim>\<open>if\<close> read a value.\<close>

fun truthy :: "jsval \<Rightarrow> bool" where
  "truthy JUndefined = False"
| "truthy JNull = False"
| "truthy (JBool b) = b"
| "truthy (JNum n) = (n \<noteq> 0)"
| "truthy (JStr s) = (s \<noteq> [])"
| "truthy _ = True"

fun js_typeof :: "jsval \<Rightarrow> string" where
  "js_typeof JUndefined = ''undefined''"
| "js_typeof (JBool b) = ''boolean''"
| "js_typeof (JNum n) = ''number''"
| "js_typeof (JStr s) = ''string''"
| "js_typeof (JFun f) = ''function''"
| "js_typeof _ = ''object''"

fun instanceof_Error :: "jsval \<Rightarrow> bool" where
  "instanceof_Error (JError m) = True"
| "instanceof_Error (JGraphQLError m orig) = True"
| "instanceof_Error _ = False"

fun isGraphQLError :: "jsval \<Rightarrow> bool" where
  "isGraphQLError (JGraphQLError m orig) = True"
| "isGraphQLError _ = False"

fun isArray :: "jsval \<Rightarrow> bool" where
  "isArray (JArr xs) = True"
| "isArray _ = False"

text \<open>
  The message of the \<^verbatim>\<open>TypeError\<close> that reading property \<open>k\<close> of \<^verbatim>\<open>undefined\<close> or
  \<^verbatim>\<open>null\<close> throws.
\<close>

definition cannot_read :: "string \<Rightarrow> string \<Rightarrow> string" where
  "cannot_read what k =
     ''Cannot read properties of '' @ what @ '' (reading '' @ [CHR 0x27] @ k @ [CHR 0x27] @ '')''"

text \<open>
  A property read \<^verbatim>\<open>v.k\<close>. It throws on \<^verbatim>\<open>undefined\<close> and \<^verbatim>\<open>null\<close>; a property that
  is absent reads as \<^verbatim>\<open>undefined\<close>. Primitives, functions and arrays carry none of the
  properties this module reads.
\<close>

fun get_prop :: "jsval \<Rightarrow> string \<Rightarrow> string + jsval" where
  "get_prop JUndefined k = Inl (cannot_read ''undefined'' k)"
| "get_prop JNull k = Inl (cannot_read ''null'' k)"
| "get_prop (JObj ps) k = Inr (case map_of ps k of Some v \<Rightarrow> v | None \<Rightarrow> JUndefined)"
| "get_prop (JError m) k = Inr (if k = ''message'' then JStr m else JUndefined)"
| "get_prop (JGraphQLError m orig) k =
     Inr (if k = ''message'' then JStr m else if k = ''originalError'' then orig else JUndefined)"
| "get_prop _ k = Inr JUndefined"

text \<open>A \<^verbatim>\<open>TypeError\<close> is thrown as an \<^verbatim>\<open>Error\<close> with its message.\<close>

definition as_thrown :: "string + 'a \<Rightarrow> 'a result" where
  "as_thrown r = (case r of Inl m \<Rightarrow> Inl (JError m) | Inr v \<Rightarrow> Inr v)"

text \<open>\<^verbatim>\<open>s.includes(t)\<close> on strings: \<open>t\<close> occurs in \<open>s\<close> as a contiguous run.\<close>

fun str_includes :: "string \<Rightarrow> string \<Rightarrow> bool" where
  "str_includes [] t = (t = [])"
| "str_includes (c # s) t = (prefix t (c # s) \<or> str_includes s t)"

section \<open>External collaborators\<close>

text \<open>
  Functions this module imports from other packages (\<^verbatim>\<open>param-case\<close>, \<^verbatim>\<open>path\<close>,
  \<^verbatim>\<open>lodash\<close>, \<^verbatim>\<open>graphql\<close>, \<^verbatim>\<open>@graphql-mesh/utils\<close>, \<^verbatim>\<open>@graphql-tools/delegate\<close>) are
  parameters of the model: every theorem holds for whatever they compute. The primitives
  of the delegation engine, the interpolator and \<^verbatim>\<open>getNullableType\<close> may throw.
\<close>

text \<open>
  The execution context. The resolvers read two things of it: the value handed on to the
  delegation engine, and the backend methods \<^verbatim>\<open>context[targetSource].api[targetMethod]\<close>.
  Looking a method up throws when the source or the method is missing; calling it gives
  a promise.
\<close>

record exec_context =
  ctx_value :: jsval
  ctx_api :: "string \<Rightarrow> string \<Rightarrow> (jsval \<Rightarrow> jsval \<Rightarrow> jsval result) result"

record resolverData =
  rd_root :: jsval
  rd_args :: jsval
  rd_context :: exec_context
  rd_info :: jsval

record externals =
  paramCase :: "string \<Rightarrow> string"
  path_resolve :: "string \<Rightarrow> string \<Rightarrow> string"
  process_cwd :: string
  lodash_get :: "jsval \<Rightarrow> string \<Rightarrow> jsval"
  lodash_set :: "jsval \<Rightarrow> string \<Rightarrow> jsval \<Rightarrow> jsval"
  interpolate :: "string \<Rightarrow> resolverData \<Rightarrow> jsval result"
  getNullableType :: "jsval \<Rightarrow> jsval result"
  isExternalObject :: "jsval \<Rightarrow> bool result"
  getUnpathedErrors :: "jsval \<Rightarrow> jsval result"
  getResponseKeyFromInfo :: "jsval \<Rightarrow> jsval result"
  getSubschema :: "jsval \<Rightarrow> jsval \<Rightarrow> jsval result"
  resolveExternalValue ::
    "jsval \<Rightarrow> jsval \<Rightarrow> jsval \<Rightarrow> jsval \<Rightarrow> jsval \<Rightarrow> jsval list \<Rightarrow> jsval result"

section \<open>getPackage\<close>

text \<open>
  The module loader \<^verbatim>\<open>importFn\<close>: \<open>Inl err\<close> is a rejection with the value \<open>err\<close>,
  whatever was thrown, \<open>Inr exported\<close> the loaded value.
\<close>

type_synonym importFn = "string \<Rightarrow> jsval result"

definition possibleNames :: "externals \<Rightarrow> string \<Rightarrow> string \<Rightarrow> string list" where
  "possibleNames X name type =
     (let casedName = paramCase X name;
          casedType = paramCase X type;
          possibleNames =
            [''@graphql-mesh/'' @ casedName,
             ''@graphql-mesh/'' @ casedName @ ''-'' @ casedType,
             ''@graphql-mesh/'' @ casedType @ ''-'' @ casedName,
             casedName,
             casedName @ ''-'' @ casedType,
             casedType @ ''-'' @ casedName,
             casedType]
      in if str_includes name ''-'' then possibleNames @ [name] else possibleNames)"

definition possibleModules :: "externals \<Rightarrow> string \<Rightarrow> string \<Rightarrow> string list" where
  "possibleModules X name type =
     possibleNames X name type @ [path_resolve X (process_cwd X) name]"

text \<open>The expression \<^verbatim>\<open>exported.default || exported.parser || exported\<close>.\<close>

definition select_export :: "jsval \<Rightarrow> string + jsval" where
  "select_export exported =
     bind_result (get_prop exported ''default'') (\<lambda>d.
       if truthy d then Inr d
       else bind_result (get_prop exported ''parser'') (\<lambda>p.
         if truthy p then Inr p else Inr exported))"

text \<open>The test of the \<^verbatim>\<open>catch\<close> clause that lets the search go on.\<close>

definition module_not_found :: "string \<Rightarrow> string \<Rightarrow> bool" where
  "module_not_found moduleName message =
     (str_includes message (''Cannot find module '' @ [CHR 0x27] @ moduleName @ [CHR 0x27])
      \<or> str_includes message ''Could not locate module'')"

text \<open>
  The \<^verbatim>\<open>catch\<close> clause: the value it throws, or \<open>None\<close> when the loop goes on. It
  reads \<^verbatim>\<open>err.message\<close> and calls \<^verbatim>\<open>includes\<close> on it without a test, so that a caught
  value without a string message makes the clause itself throw a \<^verbatim>\<open>TypeError\<close>. A message
  that is not a string is taken to have no \<^verbatim>\<open>includes\<close> method (no array, and no object
  with a method of that name, is thrown as a message here).
\<close>

definition catch_clause :: "string \<Rightarrow> string \<Rightarrow> string \<Rightarrow> jsval \<Rightarrow> jsval option" where
  "catch_clause name type moduleName err =
     (case get_prop err ''message'' of
        Inl type_error \<Rightarrow> Some (JError type_error)
      | Inr (JStr message) \<Rightarrow>
          if \<not> module_not_found moduleName message
          then Some (JError (''Unable to load '' @ type @ '' matching '' @ name @ '': '' @ message))
          else None
      | Inr JUndefined \<Rightarrow> Some (JError (cannot_read ''undefined'' ''includes''))
      | Inr JNull \<Rightarrow> Some (JError (cannot_read ''null'' ''includes''))
      | Inr other \<Rightarrow> Some (JError ''err.message.includes is not a function''))"

text \<open>
  The \<^verbatim>\<open>for\<close> loop over the candidates, and the \<^verbatim>\<open>throw\<close> after it. The \<^verbatim>\<open>try\<close>
  block holds the import and the choice of the export, so a \<^verbatim>\<open>TypeError\<close> of the latter
  is caught as well.
\<close>

fun tryModules :: "importFn \<Rightarrow> string \<Rightarrow> string \<Rightarrow> string list \<Rightarrow> jsval result" where
  "tryModules importFn name type [] =
     Inl (JError (''Unable to find '' @ type @ '' matching '' @ name))"
| "tryModules importFn name type (moduleName # rest) =
     (case bind_result (importFn moduleName) (\<lambda>exported. as_thrown (select_export exported)) of
        Inr v \<Rightarrow> Inr v
      | Inl err \<Rightarrow>
          (case catch_clause name type moduleName err of
             Some thrown \<Rightarrow> Inl thrown
           | None \<Rightarrow> tryModules importFn name type rest))"

definition getPackage :: "externals \<Rightarrow> string \<Rightarrow> string \<Rightarrow> importFn \<Rightarrow> jsval result" where
  "getPackage X name type importFn = tryModules importFn name type (possibleModules X name type)"

definition getHandler :: "externals \<Rightarrow> string \<Rightarrow> importFn \<Rightarrow> jsval result" where
  "getHandler X name importFn = getPackage X name ''handler'' importFn"

text \<open>\<^verbatim>\<open>pkg.default || pkg\<close>, which the cache, pubsub and merger resolvers apply.\<close>

definition default_or_self :: "jsval \<Rightarrow> string + jsval" where
  "default_or_self pkg =
     bind_result (get_prop pkg ''default'') (\<lambda>d. if truthy d then Inr d else Inr pkg)"

text \<open>
  \<^verbatim>\<open>resolveMerger\<close> for a merger named in the configuration (the built-in stitching
  merger stands for an absent one, and is not loaded).
\<close>

definition resolveMerger :: "externals \<Rightarrow> string \<Rightarrow> importFn \<Rightarrow> jsval result" where
  "resolveMerger X mergerConfig importFn =
     bind_result (getPackage X mergerConfig ''merger'' importFn)
       (\<lambda>pkg. as_thrown (default_or_self pkg))"

section \<open>resolveReturnData\<close>

fun originalError :: "jsval \<Rightarrow> jsval" where
  "originalError (JGraphQLError m orig) = orig"
| "originalError _ = JUndefined"

text \<open>
  \<^verbatim>\<open>args.returnData\<close> is a string of the configuration or absent; \<^verbatim>\<open>!args.returnData\<close>
  holds for the absent one and for the empty string.
\<close>

definition no_returnData :: "string option \<Rightarrow> bool" where
  "no_returnData returnData = (case returnData of None \<Rightarrow> True | Some p \<Rightarrow> p = [])"

text \<open>The revision of \<^verbatim>\<open>packages/config/src/utils.ts\<close>, with the rest parameters.\<close>

definition resolveReturnData ::
  "externals \<Rightarrow> jsval \<Rightarrow> string option \<Rightarrow> jsval \<Rightarrow> jsval \<Rightarrow> jsval list \<Rightarrow> jsval result" where
  "resolveReturnData X source returnData context info rest =
     (let result = (if instanceof_Error source \<or> no_returnData returnData then source
                    else lodash_get X source (the returnData))
      in if isGraphQLError result then Inr (originalError result)
         else bind_result (isExternalObject X result) (\<lambda>result_external.
           if result_external then Inr result
           else bind_result (isExternalObject X source) (\<lambda>source_external.
             if \<not> source_external then Inr result
             else bind_result (getUnpathedErrors X source) (\<lambda>errors.
               bind_result (getResponseKeyFromInfo X info) (\<lambda>responseKey.
                 bind_result (getSubschema X source responseKey) (\<lambda>subschema.
                   resolveExternalValue X result errors subschema context info rest))))))"

text \<open>The earlier revision: the same steps, and no rest parameters.\<close>

definition resolveReturnData_base ::
  "externals \<Rightarrow> jsval \<Rightarrow> string option \<Rightarrow> jsval \<Rightarrow> jsval \<Rightarrow> jsval result" where
  "resolveReturnData_base X source returnData context info =
     (let result = (if instanceof_Error source \<or> no_returnData returnData then source
                    else lodash_get X source (the returnData))
      in if isGraphQLError result then Inr (originalError result)
         else bind_result (isExternalObject X result) (\<lambda>result_external.
           if result_external then Inr result
           else bind_result (isExternalObject X source) (\<lambda>source_external.
             if \<not> source_external then Inr result
             else bind_result (getUnpathedErrors X source) (\<lambda>errors.
               bind_result (getResponseKeyFromInfo X info) (\<lambda>responseKey.
                 bind_result (getSubschema X source responseKey) (\<lambda>subschema.
                   resolveExternalValue X result errors subschema context info []))))))"

section \<open>Promise.all\<close>

text \<open>
  \<^verbatim>\<open>Promise.all\<close> over promises that settle in the order \<open>order\<close> (positions of the
  list; a position it leaves out settles after those it names). When every promise
  fulfils, the values come in the order of the list; otherwise the rejection that settles
  first is the outcome.
\<close>

fun fulfilled :: "('e + 'a) list \<Rightarrow> 'a list option" where
  "fulfilled [] = Some []"
| "fulfilled (Inr v # ps) = map_option ((#) v) (fulfilled ps)"
| "fulfilled (Inl e # ps) = None"

definition rejections :: "nat list \<Rightarrow> ('e + 'a) list \<Rightarrow> 'e list" where
  "rejections order ps =
     List.map_filter
       (\<lambda>i. if i < length ps then (case ps ! i of Inl e \<Rightarrow> Some e | Inr v \<Rightarrow> None) else None)
       order
     @ List.map_filter (\<lambda>p. case p of Inl e \<Rightarrow> Some e | Inr v \<Rightarrow> None) ps"

definition promise_all :: "nat list \<Rightarrow> 'a result list \<Rightarrow> 'a list result" where
  "promise_all order ps =
     (case fulfilled ps of
        Some vs \<Rightarrow> Inr vs
      | None \<Rightarrow> (case rejections order ps of e # es \<Rightarrow> Inl e | [] \<Rightarrow> Inl JUndefined))"

section \<open>resolveAdditionalResolvers\<close>

text \<open>
  \<^verbatim>\<open>args\<close> of a method-call descriptor: a mapping from paths to templates, in the order
  of its keys, or (later revision) a function of the resolver data.
\<close>

datatype args_config =
    ArgsMap "(string \<times> string) list"
  | ArgsFn "resolverData \<Rightarrow> jsval result"

record stitching_resolver =
  sr_type :: string
  sr_field :: string
  targetSource :: string
  targetMethod :: string
  sr_args :: args_config
  resultSelectedFields :: jsval
  resultSelectionSet :: jsval
  resultDepth :: jsval
  sr_returnData :: "string option"
  requiredSelectionSet :: jsval

record subscription_resolver =
  sub_type :: string
  sub_field :: string
  pubsubTopic :: string
  filterBy :: "string option"
  sub_returnData :: "string option"

datatype additionalResolver =
    FilePath string
  | SubscriptionObject subscription_resolver
  | StitchingObject stitching_resolver

text \<open>
  What one descriptor contributes: the resolvers object of a file, or one entry at
  \<open>[type][field]\<close>, whose functions close over the descriptor (\<open>subscription_resolve\<close>,
  \<open>stitching_resolve\<close> below are their \<^verbatim>\<open>resolve\<close>).
\<close>

datatype contribution =
    FileResolvers jsval
  | SubscriptionField string string subscription_resolver
  | StitchingField string string stitching_resolver

text \<open>
  The string descriptor: the contribution of the file and the lines written with
  \<^verbatim>\<open>console.warn\<close>.
\<close>

definition load_resolvers_file ::
  "externals \<Rightarrow> string \<Rightarrow> importFn \<Rightarrow> string \<Rightarrow> (jsval \<times> string list) result" where
  "load_resolvers_file X baseDir importFn filePath =
     bind_result (importFn (path_resolve X baseDir filePath)) (\<lambda>exported.
     bind_result (as_thrown (get_prop exported ''default'')) (\<lambda>default.
     bind_result
       (if truthy default then
          bind_result (as_thrown (get_prop default ''resolvers'')) (\<lambda>r.
            if truthy r then Inr r
            else if js_typeof default = ''object'' then Inr default
            else Inr JNull)
        else
          bind_result (as_thrown (get_prop exported ''resolvers'')) (\<lambda>r.
            if truthy r then Inr r else Inr JNull))
       (\<lambda>resolvers.
          if \<not> truthy resolvers
          then Inr (JObj [], [''Unable to load resolvers from file: '' @ filePath])
          else Inr (resolvers, []))))"

fun load_resolver ::
  "externals \<Rightarrow> string \<Rightarrow> importFn \<Rightarrow> additionalResolver \<Rightarrow> (contribution \<times> string list) result" where
  "load_resolver X baseDir importFn (FilePath filePath) =
     bind_result (load_resolvers_file X baseDir importFn filePath)
       (\<lambda>(resolvers, warnings). Inr (FileResolvers resolvers, warnings))"
| "load_resolver X baseDir importFn (SubscriptionObject ar) =
     Inr (SubscriptionField (sub_type ar) (sub_field ar) ar, [])"
| "load_resolver X baseDir importFn (StitchingObject ar) =
     Inr (StitchingField (sr_type ar) (sr_field ar) ar, [])"

text \<open>
  The positions \<open>0..<n\<close> in the order in which they settle: the positions that \<open>order\<close>
  names, each at its first mention, then the others in the order of the list.
\<close>

definition settle_order :: "nat list \<Rightarrow> nat \<Rightarrow> nat list" where
  "settle_order order n = rev (remdups (rev (filter (\<lambda>i. i < n) order @ [0..<n])))"

text \<open>
  \<^verbatim>\<open>mergeResolvers\<close> of \<^verbatim>\<open>@graphql-tools/merge\<close> is a parameter: it receives the
  contributions in the order of the descriptors, once every descriptor is loaded. The
  descriptors are loaded together (\<open>order\<close> is the order in which they settle); each
  file writes its warning when its own load settles, whether or not another descriptor
  fails. The \<^verbatim>\<open>subscribe\<close> function of a subscription entry (\<^verbatim>\<open>withFilter\<close> over the
  pubsub iterator) is not part of the model.
\<close>

definition resolveAdditionalResolvers ::
  "externals \<Rightarrow> (contribution list \<Rightarrow> 'm) \<Rightarrow> nat list \<Rightarrow> string \<Rightarrow> additionalResolver list
     \<Rightarrow> importFn \<Rightarrow> 'm result \<times> string list" where
  "resolveAdditionalResolvers X mergeResolvers order baseDir additionalResolvers importFn =
     (let loading = map (load_resolver X baseDir importFn) additionalResolvers;
          warnings = concat (map
            (\<lambda>i. case loading ! i of Inl e \<Rightarrow> [] | Inr (c, w) \<Rightarrow> w)
            (settle_order order (length loading)))
      in (bind_result (promise_all order loading) (\<lambda>loadedResolvers.
            Inr (mergeResolvers (map fst loadedResolvers))),
          warnings))"

text \<open>\<^verbatim>\<open>resolve\<close> of a subscription entry.\<close>

definition subscription_resolve ::
  "externals \<Rightarrow> subscription_resolver \<Rightarrow> jsval \<Rightarrow> jsval \<Rightarrow> exec_context \<Rightarrow> jsval \<Rightarrow> jsval result" where
  "subscription_resolve X ar payload args context info =
     resolveReturnData X payload (sub_returnData ar) (ctx_value context) info []"

text \<open>\<^verbatim>\<open>normalizeMethodArgs\<close>: \<^verbatim>\<open>reduce\<close> over the templates, from an empty object.\<close>

fun reduce_args ::
  "externals \<Rightarrow> resolverData \<Rightarrow> (string \<times> string) list \<Rightarrow> jsval \<Rightarrow> jsval result" where
  "reduce_args X resolverData [] object = Inr object"
| "reduce_args X resolverData ((path, template) # rest) object =
     bind_result (interpolate X template resolverData) (\<lambda>v.
       reduce_args X resolverData rest (lodash_set X object path v))"

fun normalizeMethodArgs :: "externals \<Rightarrow> args_config \<Rightarrow> resolverData \<Rightarrow> jsval result" where
  "normalizeMethodArgs X (ArgsFn args) resolverData = args resolverData"
| "normalizeMethodArgs X (ArgsMap args) resolverData = reduce_args X resolverData args (JObj [])"

fun castArray :: "jsval \<Rightarrow> jsval list" where
  "castArray (JArr xs) = xs"
| "castArray v = [v]"

fun head :: "jsval list \<Rightarrow> jsval" where
  "head [] = JUndefined"
| "head (x # xs) = x"

definition call_options :: "stitching_resolver \<Rightarrow> jsval" where
  "call_options ar =
     JObj [(''selectedFields'', resultSelectedFields ar),
           (''selectionSet'', resultSelectionSet ar),
           (''depth'', resultDepth ar)]"

definition call_target :: "exec_context \<Rightarrow> stitching_resolver \<Rightarrow> jsval \<Rightarrow> jsval result" where
  "call_target context ar methodArgs =
     bind_result (ctx_api context (targetSource ar) (targetMethod ar)) (\<lambda>method.
       method methodArgs (call_options ar))"

text \<open>The body of \<^verbatim>\<open>castArray(methodArgs).map(async methodArgs => ...)\<close>.\<close>

definition call_element ::
  "externals \<Rightarrow> stitching_resolver \<Rightarrow> exec_context \<Rightarrow> jsval \<Rightarrow> jsval \<Rightarrow> jsval \<Rightarrow> jsval result" where
  "call_element X ar context info returnType methodArgs =
     bind_result (call_target context ar methodArgs) (\<lambda>result.
       if instanceof_Error result then Inr JNull
       else resolveReturnData X result (sr_returnData ar) (ctx_value context) info [returnType])"

text \<open>
  \<^verbatim>\<open>resolve\<close> of a method-call entry, in the revision with the fan-out over an array of
  arguments. \<open>order\<close> is the order in which the calls settle.
\<close>

definition stitching_resolve ::
  "externals \<Rightarrow> stitching_resolver \<Rightarrow> nat list \<Rightarrow> jsval \<Rightarrow> jsval \<Rightarrow> exec_context \<Rightarrow> jsval
     \<Rightarrow> jsval result" where
  "stitching_resolve X ar order root args context info =
     (let resolverData = \<lparr>rd_root = root, rd_args = args, rd_context = context, rd_info = info\<rparr>
      in bind_result (normalizeMethodArgs X (sr_args ar) resolverData) (\<lambda>methodArgs.
         bind_result (as_thrown (get_prop info ''returnType'')) (\<lambda>info_returnType.
         bind_result (getNullableType X info_returnType) (\<lambda>outputType.
         bind_result
           (if isArray methodArgs then as_thrown (get_prop outputType ''ofType'')
            else Inr outputType)
           (\<lambda>returnType.
         let promises = map (call_element X ar context info returnType) (castArray methodArgs)
         in bind_result (promise_all order promises) (\<lambda>results.
              Inr (if isArray methodArgs then JArr results else head results)))))))"

text \<open>
  \<^verbatim>\<open>resolve\<close> of a method-call entry in the earlier revision: one call, whose result goes
  to \<^verbatim>\<open>resolveReturnData\<close> whatever it is. \<^verbatim>\<open>args\<close> is a mapping there; \<^verbatim>\<open>for ... in\<close>
  over anything else sets nothing.
\<close>

definition stitching_resolve_base ::
  "externals \<Rightarrow> stitching_resolver \<Rightarrow> jsval \<Rightarrow> jsval \<Rightarrow> exec_context \<Rightarrow> jsval \<Rightarrow> jsval result" where
  "stitching_resolve_base X ar root args context info =
     (let resolverData = \<lparr>rd_root = root, rd_args = args, rd_context = context, rd_info = info\<rparr>
      in bind_result
           (reduce_args X resolverData (case sr_args ar of ArgsMap m \<Rightarrow> m | ArgsFn f \<Rightarrow> []) (JObj []))
           (\<lambda>methodArgs.
         bind_result (call_target context ar methodArgs) (\<lambda>result.
           resolveReturnData_base X result (sr_returnData ar) (ctx_value context) info)))"

section \<open>Statement vocabulary and a test instance\<close>

text \<open>
  A candidate fails as not found: the loader rejects with a value whose message is a
  string that the \<^verbatim>\<open>catch\<close> clause lets pass.
\<close>

definition fails_not_found :: "importFn \<Rightarrow> string \<Rightarrow> bool" where
  "fails_not_found importFn moduleName =
     (case importFn moduleName of
        Inl err \<Rightarrow>
          (case get_prop err ''message'' of
             Inr (JStr message) \<Rightarrow> module_not_found moduleName message
           | _ \<Rightarrow> False)
      | Inr exported \<Rightarrow> False)"

text \<open>
  An instance of the collaborators, small enough to run: paths of one key, an object
  tagged as external when it has an \<^verbatim>\<open>unpathedErrors\<close> property, a delegation engine that
  records what it was given.
\<close>

definition stub_get :: "jsval \<Rightarrow> string \<Rightarrow> jsval" where
  "stub_get source path = (case get_prop source path of Inr v \<Rightarrow> v | Inl m \<Rightarrow> JUndefined)"

definition stub_set :: "jsval \<Rightarrow> string \<Rightarrow> jsval \<Rightarrow> jsval" where
  "stub_set object path v = (case object of JObj ps \<Rightarrow> JObj (ps @ [(path, v)]) | _ \<Rightarrow> object)"

definition stub_external :: "jsval \<Rightarrow> bool" where
  "stub_external v = (case v of JObj ps \<Rightarrow> map_of ps ''unpathedErrors'' \<noteq> None | _ \<Rightarrow> False)"

definition stub_externals :: externals where
  "stub_externals =
     \<lparr>paramCase = (\<lambda>s. s),
      path_resolve = (\<lambda>dir p. dir @ ''/'' @ p),
      process_cwd = ''/srv'',
      lodash_get = stub_get,
      lodash_set = stub_set,
      interpolate = (\<lambda>template resolverData. Inr (JStr template)),
      getNullableType = (\<lambda>t. Inr t),
      isExternalObject = (\<lambda>v. Inr (stub_external v)),
      getUnpathedErrors = (\<lambda>v. Inr (stub_get v ''unpathedErrors'')),
      getResponseKeyFromInfo = (\<lambda>info. Inr (stub_get info ''fieldName'')),
      getSubschema = (\<lambda>source responseKey. Inr (JObj [(''subschemaOf'', responseKey)])),
      resolveExternalValue = (\<lambda>result errors subschema context info rest.
        Inr (JObj [(''value'', result), (''unpathedErrors'', errors),
                   (''subschema'', subschema), (''rest'', JArr rest)]))\<rparr>"

text \<open>
  The same instance with a test for external objects that reads the property of its
  argument and compares it with \<^verbatim>\<open>undefined\<close>, as
  \<^verbatim>\<open>data[UNPATHED_ERRORS_SYMBOL] !== undefined\<close> does: it throws on \<^verbatim>\<open>undefined\<close> and
  on \<^verbatim>\<open>null\<close>.
\<close>

definition strict_externals :: externals where
  "strict_externals =
     stub_externals
       \<lparr>isExternalObject := (\<lambda>v.
          bind_result (as_thrown (get_prop v ''unpathedErrors'')) (\<lambda>tag.
            Inr (tag \<noteq> JUndefined)))\<rparr>"

text \<open>A loader that finds nothing, and one that finds a single module.\<close>

definition import_nothing :: importFn where
  "import_nothing moduleName =
     Inl (JError (''Cannot find module '' @ [CHR 0x27] @ moduleName @ [CHR 0x27]))"

definition import_only :: "string \<Rightarrow> jsval result \<Rightarrow> importFn" where
  "import_only known outcome moduleName =
     (if moduleName = known then outcome else import_nothing moduleName)"

text \<open>
  A method-call descriptor whose arguments are the field's own arguments, and a backend
  with one method: it rejects for \<open>0\<close> and for \<open>5\<close>, returns an \<^verbatim>\<open>Error\<close> for \<open>2\<close>,
  returns \<^verbatim>\<open>null\<close> for \<open>4\<close>, and returns a book otherwise. The field returns a list of
  books.
\<close>

definition stub_resolver :: stitching_resolver where
  "stub_resolver =
     \<lparr>sr_type = ''Query'', sr_field = ''books'', targetSource = ''Library'',
      targetMethod = ''book'', sr_args = ArgsFn (\<lambda>resolverData. Inr (rd_args resolverData)),
      resultSelectedFields = JUndefined, resultSelectionSet = JUndefined,
      resultDepth = JUndefined, sr_returnData = None, requiredSelectionSet = JUndefined\<rparr>"

definition stub_book :: "jsval \<Rightarrow> jsval \<Rightarrow> jsval result" where
  "stub_book methodArgs options =
     (if methodArgs = JNum 0 then Inl (JError ''connection refused'')
      else if methodArgs = JNum 2 then Inr (JError ''no such book'')
      else if methodArgs = JNum 4 then Inr JNull
      else if methodArgs = JNum 5 then Inl (JError ''timeout'')
      else Inr (JObj [(''id'', methodArgs)]))"

definition stub_context :: exec_context where
  "stub_context =
     \<lparr>ctx_value = JNull,
      ctx_api = (\<lambda>source method.
        if source = ''Library'' \<and> method = ''book'' then Inr stub_book
        else Inl (JError ''not a function''))\<rparr>"

definition stub_info :: jsval where
  "stub_info = JObj [(''returnType'', JObj [(''ofType'', JStr ''Book'')])]"

section \<open>Properties\<close>

subsection \<open>Strings\<close>

lemma includes_Nil [simp]: "str_includes s []"
  by (cases s) simp_all

lemma includes_iff: "str_includes s t \<longleftrightarrow> (\<exists>pre post. s = pre @ t @ post)"
proof (induction s)
  case Nil
  then show ?case by auto
next
  case (Cons c s)
  show ?case
  proof
    assume "str_includes (c # s) t"
    then consider "prefix t (c # s)" | "str_includes s t" by auto
    then show "\<exists>pre post. c # s = pre @ t @ post"
    proof cases
      case 1
      then obtain post where "c # s = t @ post" by (auto simp: prefix_def)
      then have "c # s = [] @ t @ post" by simp
      then show ?thesis by blast
    next
      case 2
      then obtain pre post where "s = pre @ t @ post" using Cons.IH by blast
      then have "c # s = (c # pre) @ t @ post" by simp
      then show ?thesis by blast
    qed
  next
    assume "\<exists>pre post. c # s = pre @ t @ post"
    then obtain pre post where eq: "c # s = pre @ t @ post" by blast
    show "str_includes (c # s) t"
    proof (cases pre)
      case Nil
      then have "prefix t (c # s)" using eq by (simp add: prefix_def)
      then show ?thesis by simp
    next
      case (Cons a pre')
      then have "s = pre' @ t @ post" using eq by simp
      then have "str_includes s t" using Cons.IH by blast
      then show ?thesis by simp
    qed
  qed
qed

lemma includes_char: "str_includes s [c] \<longleftrightarrow> c \<in> set s"
  by (induction s) auto

subsection \<open>The candidate list\<close>

text \<open>
  C2. For every name and category, the candidate list is, in this order:
  \<^verbatim>\<open>@graphql-mesh/{name}\<close>, \<^verbatim>\<open>@graphql-mesh/{name}-{category}\<close>,
  \<^verbatim>\<open>@graphql-mesh/{category}-{name}\<close>, \<^verbatim>\<open>{name}\<close>, \<^verbatim>\<open>{name}-{category}\<close>,
  \<^verbatim>\<open>{category}-{name}\<close>, \<^verbatim>\<open>{category}\<close> (name and category param-cased), then the raw
  name exactly when the raw name contains a dash, and last the name resolved against the
  current working directory.
\<close>

theorem possibleModules_list:
  "possibleModules X name type =
     [''@graphql-mesh/'' @ paramCase X name,
      ''@graphql-mesh/'' @ paramCase X name @ ''-'' @ paramCase X type,
      ''@graphql-mesh/'' @ paramCase X type @ ''-'' @ paramCase X name,
      paramCase X name,
      paramCase X name @ ''-'' @ paramCase X type,
      paramCase X type @ ''-'' @ paramCase X name,
      paramCase X type]
     @ (if CHR ''-'' \<in> set name then [name] else [])
     @ [path_resolve X (process_cwd X) name]"
  using includes_char [of name "CHR ''-''"]
  by (simp add: possibleModules_def possibleNames_def Let_def)

theorem possibleModules_list_witness:
  "possibleModules stub_externals ''my-redis'' ''cache'' =
     [''@graphql-mesh/my-redis'', ''@graphql-mesh/my-redis-cache'',
      ''@graphql-mesh/cache-my-redis'', ''my-redis'', ''my-redis-cache'', ''cache-my-redis'',
      ''cache'', ''my-redis'', ''/srv/my-redis'']
   \<and> possibleModules stub_externals ''redis'' ''cache'' =
     [''@graphql-mesh/redis'', ''@graphql-mesh/redis-cache'', ''@graphql-mesh/cache-redis'',
      ''redis'', ''redis-cache'', ''cache-redis'', ''cache'', ''/srv/redis'']"
  using possibleModules_list [of stub_externals "''my-redis''" "''cache''"]
    possibleModules_list [of stub_externals "''redis''" "''cache''"]
  by (simp add: stub_externals_def)

subsection \<open>The search over the candidates\<close>

lemma str_includes_mid: "str_includes (pre @ t @ post) t"
  by (auto simp: includes_iff)

lemma import_nothing_fails: "fails_not_found import_nothing m"
  unfolding fails_not_found_def import_nothing_def module_not_found_def
  using str_includes_mid [of "[]" _ "[]"] by simp

lemma fails_not_foundE:
  assumes "fails_not_found importFn m"
  obtains err message where "importFn m = Inl err" "get_prop err ''message'' = Inr (JStr message)"
    "module_not_found m message"
  using assms
  by (auto simp: fails_not_found_def split: sum.splits jsval.splits)

lemma tryModules_skip:
  "\<forall>m\<in>set pre. fails_not_found importFn m \<Longrightarrow>
     tryModules importFn name type (pre @ rest) = tryModules importFn name type rest"
proof (induction pre)
  case Nil
  then show ?case by simp
next
  case (Cons m pre)
  then have "fails_not_found importFn m" by simp
  then obtain err message where "importFn m = Inl err"
    "get_prop err ''message'' = Inr (JStr message)" "module_not_found m message"
    by (rule fails_not_foundE)
  with Cons show ?case by (simp add: bind_result_def catch_clause_def)
qed

text \<open>
  C8. When every candidate of the list fails as not found, \<^verbatim>\<open>getPackage\<close> throws
  \<^verbatim>\<open>Unable to find {type} matching {name}\<close>: the message names the category and the name
  as the caller gave it.
\<close>

theorem getPackage_not_found:
  assumes "\<forall>m\<in>set (possibleModules X name type). fails_not_found importFn m"
  shows "getPackage X name type importFn =
           Inl (JError (''Unable to find '' @ type @ '' matching '' @ name))
    \<and> str_includes (''Unable to find '' @ type @ '' matching '' @ name) type
    \<and> str_includes (''Unable to find '' @ type @ '' matching '' @ name) name"
proof -
  have "getPackage X name type importFn = tryModules importFn name type []"
    using tryModules_skip [OF assms, of name type "[]"] by (simp add: getPackage_def)
  moreover have "str_includes (''Unable to find '' @ type @ '' matching '' @ name) type"
    using str_includes_mid [of "''Unable to find ''" type "'' matching '' @ name"] by simp
  moreover have "str_includes (''Unable to find '' @ type @ '' matching '' @ name) name"
    using str_includes_mid [of "''Unable to find '' @ type @ '' matching ''" name "[]"] by simp
  ultimately show ?thesis by simp
qed

theorem getPackage_not_found_witness:
  "getPackage stub_externals ''redis'' ''cache'' import_nothing =
     Inl (JError ''Unable to find cache matching redis'')"
  using getPackage_not_found [of stub_externals "''redis''" "''cache''" import_nothing]
    import_nothing_fails
  by simp

lemma tryModules_decided:
  assumes "possibleModules X name type = pre @ moduleName # post"
    and "\<forall>m\<in>set pre. fails_not_found importFn m"
  shows "getPackage X name type importFn = tryModules importFn name type (moduleName # post)"
  using tryModules_skip [OF assms(2), of name type "moduleName # post"] assms(1)
  by (simp add: getPackage_def)

lemma get_prop_defined:
  "exported \<noteq> JUndefined \<Longrightarrow> exported \<noteq> JNull \<Longrightarrow> \<exists>v. get_prop exported k = Inr v"
  by (cases exported) simp_all

lemma select_export_defined:
  "exported \<noteq> JUndefined \<Longrightarrow> exported \<noteq> JNull \<Longrightarrow> \<exists>v. select_export exported = Inr v"
  using get_prop_defined [of exported "''default''"] get_prop_defined [of exported "''parser''"]
  by (auto simp: select_export_def bind_result_def)

text \<open>
  The search is decided at the first candidate that does not fail as not found. With
  every earlier candidate failing as not found: a candidate that the loader resolves (to a
  module value, neither \<^verbatim>\<open>undefined\<close> nor \<^verbatim>\<open>null\<close>) makes \<^verbatim>\<open>getPackage\<close> return; a
  candidate that fails with another string message makes it throw
  \<^verbatim>\<open>Unable to load {type} matching {name}: {message}\<close> at once; a candidate that fails
  as not found is passed over, and the search goes on with the candidates after it.
\<close>

lemma getPackage_search:
  assumes "possibleModules X name type = pre @ moduleName # post"
    and "\<forall>m\<in>set pre. fails_not_found importFn m"
  shows "(\<forall>exported. importFn moduleName = Inr exported \<and> exported \<noteq> JUndefined \<and> exported \<noteq> JNull
            \<longrightarrow> (\<exists>v. select_export exported = Inr v \<and> getPackage X name type importFn = Inr v))
    \<and> (\<forall>err message. importFn moduleName = Inl err
            \<and> get_prop err ''message'' = Inr (JStr message)
            \<and> \<not> module_not_found moduleName message
            \<longrightarrow> getPackage X name type importFn =
                  Inl (JError (''Unable to load '' @ type @ '' matching '' @ name @ '': '' @ message)))
    \<and> (fails_not_found importFn moduleName
            \<longrightarrow> getPackage X name type importFn = tryModules importFn name type post)"
proof -
  note dec = tryModules_decided [OF assms]
  have a: "\<exists>v. select_export exported = Inr v \<and> getPackage X name type importFn = Inr v"
    if loaded: "importFn moduleName = Inr exported"
      and defined: "exported \<noteq> JUndefined" "exported \<noteq> JNull"
    for exported
  proof -
    obtain v where "select_export exported = Inr v"
      using select_export_defined defined by blast
    then show ?thesis using dec loaded by (simp add: bind_result_def as_thrown_def)
  qed
  have b: "getPackage X name type importFn =
      Inl (JError (''Unable to load '' @ type @ '' matching '' @ name @ '': '' @ message))"
    if "importFn moduleName = Inl err" and "get_prop err ''message'' = Inr (JStr message)"
      and "\<not> module_not_found moduleName message" for err message
    using dec that by (simp add: bind_result_def catch_clause_def)
  have c: "getPackage X name type importFn = tryModules importFn name type post"
    if nf: "fails_not_found importFn moduleName"
  proof -
    obtain err message where "importFn moduleName = Inl err"
      "get_prop err ''message'' = Inr (JStr message)" "module_not_found moduleName message"
      using nf by (rule fails_not_foundE)
    then show ?thesis using dec by (simp add: bind_result_def catch_clause_def)
  qed
  from a b c show ?thesis by blast
qed

text \<open>
  A rejection whose value has no message (a thrown string, a number, an object without
  that property) is not wrapped: the \<^verbatim>\<open>catch\<close> clause throws the \<^verbatim>\<open>TypeError\<close> of
  \<^verbatim>\<open>err.message.includes\<close>, and the search ends there.
\<close>

lemma getPackage_rejection_without_message:
  assumes "possibleModules X name type = pre @ moduleName # post"
    and "\<forall>m\<in>set pre. fails_not_found importFn m"
    and "importFn moduleName = Inl err"
    and "get_prop err ''message'' = Inr JUndefined"
  shows "getPackage X name type importFn = Inl (JError (cannot_read ''undefined'' ''includes''))"
  using tryModules_decided [OF assms(1,2)] assms(3,4)
  by (simp add: bind_result_def catch_clause_def)

text \<open>
  C6, as the code has it. For every category alike, the value returned for the candidate
  that resolves is its default export when that is truthy, else its \<^verbatim>\<open>parser\<close> export
  when that is truthy, else the exported value itself.
\<close>

theorem getPackage_export_selection:
  assumes "possibleModules X name type = pre @ moduleName # post"
    and "\<forall>m\<in>set pre. fails_not_found importFn m"
    and "importFn moduleName = Inr exported"
    and "get_prop exported ''default'' = Inr d"
    and "get_prop exported ''parser'' = Inr p"
  shows "getPackage X name type importFn =
           Inr (if truthy d then d else if truthy p then p else exported)"
  using tryModules_decided [OF assms(1,2)] assms(3,4,5)
  by (simp add: bind_result_def select_export_def as_thrown_def)

lemma stub_modules_redis:
  "possibleModules stub_externals ''redis'' ''cache'' =
     [''@graphql-mesh/redis'', ''@graphql-mesh/redis-cache'', ''@graphql-mesh/cache-redis'', ''redis'']
     @ ''redis-cache'' # [''cache-redis'', ''cache'', ''/srv/redis'']"
  by (simp add: possibleModules_def possibleNames_def Let_def includes_char stub_externals_def)

lemma import_only_fails:
  "m \<noteq> known \<Longrightarrow> fails_not_found (import_only known outcome) m"
  using import_nothing_fails [of m] by (simp add: fails_not_found_def import_only_def)

theorem getPackage_export_selection_witness:
  "getPackage stub_externals ''redis'' ''cache''
      (import_only ''redis-cache'' (Inr (JObj [(''parser'', JFun ''P'')])))
     = Inr (JFun ''P'')"
proof -
  let ?pre = "[''@graphql-mesh/redis'', ''@graphql-mesh/redis-cache'', ''@graphql-mesh/cache-redis'', ''redis'']"
  have pre: "\<forall>m\<in>set ?pre.
      fails_not_found (import_only ''redis-cache'' (Inr (JObj [(''parser'', JFun ''P'')]))) m"
    by (simp add: import_only_fails)
  show ?thesis
    using getPackage_export_selection [OF stub_modules_redis pre,
        of "JObj [(''parser'', JFun ''P'')]" JUndefined "JFun ''P''"]
    by (simp add: import_only_def)
qed

text \<open>
  The \<^verbatim>\<open>parser\<close> fallback is not particular to handlers: a merger module that exports
  only \<^verbatim>\<open>parser\<close> resolves to that export, not to the exported value.
\<close>

lemma stub_modules_x:
  "possibleModules stub_externals ''x'' ''merger'' =
     [] @ ''@graphql-mesh/x'' # [''@graphql-mesh/x-merger'', ''@graphql-mesh/merger-x'', ''x'',
       ''x-merger'', ''merger-x'', ''merger'', ''/srv/x'']"
  by (simp add: possibleModules_def possibleNames_def Let_def includes_char stub_externals_def)

theorem parser_fallback_counterexample:
  "getPackage stub_externals ''x'' ''merger''
      (import_only ''@graphql-mesh/x'' (Inr (JObj [(''parser'', JFun ''P'')])))
     = Inr (JFun ''P'')
   \<and> resolveMerger stub_externals ''x''
      (import_only ''@graphql-mesh/x'' (Inr (JObj [(''parser'', JFun ''P'')])))
     = Inr (JFun ''P'')
   \<and> JFun ''P'' \<noteq> JObj [(''parser'', JFun ''P'')]"
  by (simp add: resolveMerger_def getPackage_def stub_modules_x import_only_def
      select_export_def bind_result_def default_or_self_def as_thrown_def)

text \<open>
  C3. A loader failure other than not found is to end the search with an error that wraps
  it and names the category and the name. That holds for a failure with a string message
  (\<open>getPackage_search\<close>), and not for a rejection whose value has none: a module that
  throws a string while it loads makes the loader reject with that string, and the
  \<^verbatim>\<open>catch\<close> clause then throws the \<^verbatim>\<open>TypeError\<close> of reading \<^verbatim>\<open>includes\<close> of
  \<^verbatim>\<open>undefined\<close>, whose message names neither. The same module throwing an \<^verbatim>\<open>Error\<close> is
  wrapped.
\<close>

theorem getPackage_string_rejection:
  "getPackage stub_externals ''redis'' ''cache''
      (import_only ''@graphql-mesh/redis'' (Inl (JStr ''boom'')))
     = Inl (JError ''Cannot read properties of undefined (reading 'includes')'')
   \<and> \<not> str_includes ''Cannot read properties of undefined (reading 'includes')'' ''cache''
   \<and> \<not> str_includes ''Cannot read properties of undefined (reading 'includes')'' ''redis''
   \<and> getPackage stub_externals ''redis'' ''cache''
        (import_only ''@graphql-mesh/redis'' (Inl (JError ''boom'')))
     = Inl (JError ''Unable to load cache matching redis: boom'')"
  by (simp add: getPackage_def stub_modules_redis import_only_def bind_result_def
      catch_clause_def cannot_read_def module_not_found_def)

subsection \<open>Return data\<close>

lemma resolveReturnData_base_eq:
  "resolveReturnData_base X source returnData ctx info =
     resolveReturnData X source returnData ctx info []"
  by (simp add: resolveReturnData_base_def resolveReturnData_def)

text \<open>
  C1, as the code has it. The source is not an \<^verbatim>\<open>Error\<close> and a path is given. A
  \<^verbatim>\<open>GraphQLError\<close> at the path is not returned: its \<^verbatim>\<open>originalError\<close> is. Any other
  value at the path is returned as it is when it is tagged as external, or when neither
  it nor the source is. When the source is tagged and the value is not, the result is
  that of \<^verbatim>\<open>resolveExternalValue\<close> on the value, the unpathed errors of the source, the
  subschema of the source for the response key of \<^verbatim>\<open>info\<close>, the context and \<^verbatim>\<open>info\<close>,
  followed in the later revision by the rest parameters. Whatever a test or a lookup of
  the delegation engine throws on the way is thrown on to the caller. The earlier
  revision does the same with no rest parameters.
\<close>

theorem resolveReturnData_extracted:
  assumes "\<not> instanceof_Error source"
    and "returnData = Some path"
    and "path \<noteq> []"
  shows "(let v = lodash_get X source path;
              R = resolveReturnData X source returnData ctx info rest
          in (\<forall>m orig. v = JGraphQLError m orig \<longrightarrow> R = Inr orig)
           \<and> (\<not> isGraphQLError v \<longrightarrow>
                (\<forall>e. isExternalObject X v = Inl e \<longrightarrow> R = Inl e)
              \<and> (isExternalObject X v = Inr True \<longrightarrow> R = Inr v)
              \<and> (isExternalObject X v = Inr False \<longrightarrow>
                   (\<forall>e. isExternalObject X source = Inl e \<longrightarrow> R = Inl e)
                 \<and> (isExternalObject X source = Inr False \<longrightarrow> R = Inr v)
                 \<and> (isExternalObject X source = Inr True \<longrightarrow>
                      (\<forall>e. getUnpathedErrors X source = Inl e \<longrightarrow> R = Inl e)
                    \<and> (\<forall>errors. getUnpathedErrors X source = Inr errors \<longrightarrow>
                         (\<forall>e. getResponseKeyFromInfo X info = Inl e \<longrightarrow> R = Inl e)
                       \<and> (\<forall>responseKey. getResponseKeyFromInfo X info = Inr responseKey \<longrightarrow>
                            (\<forall>e. getSubschema X source responseKey = Inl e \<longrightarrow> R = Inl e)
                          \<and> (\<forall>subschema. getSubschema X source responseKey = Inr subschema \<longrightarrow>
                               R = resolveExternalValue X v errors subschema ctx info rest)))))))
    \<and> resolveReturnData_base X source returnData ctx info =
        resolveReturnData X source returnData ctx info []"
  using assms
  by (auto simp: resolveReturnData_base_eq resolveReturnData_def no_returnData_def
      bind_result_def Let_def)

lemma strict_isExternalObject:
  "isExternalObject strict_externals v =
     bind_result (as_thrown (get_prop v ''unpathedErrors'')) (\<lambda>tag. Inr (tag \<noteq> JUndefined))"
  by (simp add: strict_externals_def)

lemma strict_lodash_get: "lodash_get strict_externals = stub_get"
  by (simp add: strict_externals_def stub_externals_def)

theorem resolveReturnData_extracted_witness:
  "resolveReturnData stub_externals (JObj [(''user'', JObj [(''id'', JNum 7)])]) (Some ''user'')
      JNull JNull [JStr ''User'']
     = Inr (JObj [(''id'', JNum 7)])
   \<and> resolveReturnData stub_externals
      (JObj [(''user'', JObj [(''id'', JNum 7)]), (''unpathedErrors'', JArr [])]) (Some ''user'')
      JNull (JObj [(''fieldName'', JStr ''me'')]) [JStr ''User'']
     = Inr (JObj [(''value'', JObj [(''id'', JNum 7)]), (''unpathedErrors'', JArr []),
                  (''subschema'', JObj [(''subschemaOf'', JStr ''me'')]),
                  (''rest'', JArr [JStr ''User''])])
   \<and> resolveReturnData stub_externals
      (JObj [(''user'', JGraphQLError ''wrapped'' JUndefined)]) (Some ''user'') JNull JNull []
     = Inr JUndefined
   \<and> resolveReturnData strict_externals (JObj [(''user'', JNull)]) (Some ''user'') JNull JNull []
     = Inl (JError (cannot_read ''null'' ''unpathedErrors''))"
proof -
  let ?plain = "JObj [(''user'', JObj [(''id'', JNum 7)])]"
  let ?tagged = "JObj [(''user'', JObj [(''id'', JNum 7)]), (''unpathedErrors'', JArr [])]"
  let ?failed = "JObj [(''user'', JGraphQLError ''wrapped'' JUndefined)]"
  let ?null = "JObj [(''user'', JNull)]"
  have "resolveReturnData stub_externals ?plain (Some ''user'') JNull JNull [JStr ''User'']
     = Inr (JObj [(''id'', JNum 7)])"
    using resolveReturnData_extracted [where source = ?plain and returnData = "Some ''user''"
        and path = "''user''" and X = stub_externals and ctx = JNull and info = JNull
        and rest = "[JStr ''User'']"]
    by (simp add: Let_def stub_externals_def stub_get_def stub_external_def)
  moreover have "resolveReturnData stub_externals ?tagged (Some ''user'') JNull
      (JObj [(''fieldName'', JStr ''me'')]) [JStr ''User'']
     = Inr (JObj [(''value'', JObj [(''id'', JNum 7)]), (''unpathedErrors'', JArr []),
                  (''subschema'', JObj [(''subschemaOf'', JStr ''me'')]),
                  (''rest'', JArr [JStr ''User''])])"
    using resolveReturnData_extracted [where source = ?tagged and returnData = "Some ''user''"
        and path = "''user''" and X = stub_externals and ctx = JNull
        and info = "JObj [(''fieldName'', JStr ''me'')]" and rest = "[JStr ''User'']"]
    by (simp add: Let_def stub_externals_def stub_get_def stub_external_def)
  moreover have "resolveReturnData stub_externals ?failed (Some ''user'') JNull JNull []
     = Inr JUndefined"
    using resolveReturnData_extracted [where source = ?failed and returnData = "Some ''user''"
        and path = "''user''" and X = stub_externals and ctx = JNull and info = JNull
        and rest = "[]"]
    by (simp add: Let_def stub_externals_def stub_get_def)
  moreover have "resolveReturnData strict_externals ?null (Some ''user'') JNull JNull []
     = Inl (JError (cannot_read ''null'' ''unpathedErrors''))"
    using resolveReturnData_extracted [where source = ?null and returnData = "Some ''user''"
        and path = "''user''" and X = strict_externals and ctx = JNull and info = JNull
        and rest = "[]"]
    by (simp add: Let_def strict_isExternalObject strict_lodash_get stub_get_def
        bind_result_def as_thrown_def)
  ultimately show ?thesis by blast
qed

text \<open>
  Two inputs on which the value at the path is not returned as it is, although the source
  is not tagged: a \<^verbatim>\<open>GraphQLError\<close> at the path, for which its \<^verbatim>\<open>originalError\<close> is
  returned; and a path that leads nowhere, for which the test for an external object is
  run on \<^verbatim>\<open>undefined\<close> and throws.
\<close>

theorem graphql_error_extracted_counterexample:
  "resolveReturnData stub_externals
      (JObj [(''user'', JGraphQLError ''wrapped'' (JError ''cause''))]) (Some ''user'')
      JNull JNull []
     = Inr (JError ''cause'')
   \<and> lodash_get stub_externals
      (JObj [(''user'', JGraphQLError ''wrapped'' (JError ''cause''))]) ''user''
     = JGraphQLError ''wrapped'' (JError ''cause'')
   \<and> isExternalObject stub_externals
      (JObj [(''user'', JGraphQLError ''wrapped'' (JError ''cause''))]) = Inr False
   \<and> JError ''cause'' \<noteq> JGraphQLError ''wrapped'' (JError ''cause'')
   \<and> resolveReturnData strict_externals (JObj [(''user'', JObj [(''id'', JNum 7)])])
      (Some ''account'') JNull JNull []
     = Inl (JError (cannot_read ''undefined'' ''unpathedErrors''))
   \<and> lodash_get strict_externals (JObj [(''user'', JObj [(''id'', JNum 7)])]) ''account''
     = JUndefined
   \<and> isExternalObject strict_externals (JObj [(''user'', JObj [(''id'', JNum 7)])]) = Inr False"
  by (simp add: resolveReturnData_def no_returnData_def stub_externals_def stub_get_def
      stub_external_def strict_externals_def bind_result_def as_thrown_def)

text \<open>
  C7, as the code has it. With no path, or with a source that is an \<^verbatim>\<open>Error\<close>: a source
  that is a \<^verbatim>\<open>GraphQLError\<close> is not returned, its \<^verbatim>\<open>originalError\<close> is; any other source
  is returned unchanged when the test for an external object returns on it, and when that
  test throws on it, what it throws is thrown on to the caller. The earlier revision does
  the same.
\<close>

theorem resolveReturnData_identity:
  assumes "instanceof_Error source \<or> no_returnData returnData"
  shows "(\<forall>m orig. source = JGraphQLError m orig
            \<longrightarrow> resolveReturnData X source returnData ctx info rest = Inr orig)
    \<and> (\<forall>tagged. \<not> isGraphQLError source \<and> isExternalObject X source = Inr tagged
            \<longrightarrow> resolveReturnData X source returnData ctx info rest = Inr source)
    \<and> (\<forall>e. \<not> isGraphQLError source \<and> isExternalObject X source = Inl e
            \<longrightarrow> resolveReturnData X source returnData ctx info rest = Inl e)
    \<and> resolveReturnData_base X source returnData ctx info =
        resolveReturnData X source returnData ctx info []"
  using assms
  by (auto simp: resolveReturnData_base_eq resolveReturnData_def bind_result_def Let_def)

lemma stub_isExternalObject: "isExternalObject stub_externals v = Inr (stub_external v)"
  by (simp add: stub_externals_def)

theorem resolveReturnData_identity_witness:
  "resolveReturnData stub_externals (JObj [(''id'', JNum 7)]) None JNull JNull [] =
     Inr (JObj [(''id'', JNum 7)])
   \<and> resolveReturnData stub_externals (JError ''down'') (Some ''user'') JNull JNull [] =
     Inr (JError ''down'')
   \<and> resolveReturnData stub_externals (JGraphQLError ''wrapped'' JUndefined) None JNull JNull [] =
     Inr JUndefined
   \<and> resolveReturnData strict_externals JUndefined None JNull JNull [] =
     Inl (JError (cannot_read ''undefined'' ''unpathedErrors''))"
proof -
  have none: "instanceof_Error source \<or> no_returnData None" for source
    by (simp add: no_returnData_def)
  have err: "instanceof_Error (JError ''down'') \<or> no_returnData (Some ''user'')"
    by simp
  have plain: "\<not> isGraphQLError (JObj [(''id'', JNum 7)])
      \<and> isExternalObject stub_externals (JObj [(''id'', JNum 7)]) = Inr False"
    by (simp add: stub_isExternalObject stub_external_def)
  have down: "\<not> isGraphQLError (JError ''down'')
      \<and> isExternalObject stub_externals (JError ''down'') = Inr False"
    by (simp add: stub_isExternalObject stub_external_def)
  have undef: "\<not> isGraphQLError JUndefined
      \<and> isExternalObject strict_externals JUndefined
          = Inl (JError (cannot_read ''undefined'' ''unpathedErrors''))"
    by (simp add: strict_isExternalObject bind_result_def as_thrown_def)
  have "resolveReturnData stub_externals (JObj [(''id'', JNum 7)]) None JNull JNull [] =
     Inr (JObj [(''id'', JNum 7)])"
    using resolveReturnData_identity [OF none, THEN conjunct2, THEN conjunct1, rule_format,
        OF plain] .
  moreover have "resolveReturnData stub_externals (JError ''down'') (Some ''user'') JNull JNull [] =
     Inr (JError ''down'')"
    using resolveReturnData_identity [OF err, THEN conjunct2, THEN conjunct1, rule_format,
        OF down] .
  moreover have "resolveReturnData stub_externals (JGraphQLError ''wrapped'' JUndefined) None
      JNull JNull [] = Inr JUndefined"
    using resolveReturnData_identity [OF none, THEN conjunct1, rule_format,
        of "JGraphQLError ''wrapped'' JUndefined" "''wrapped''" JUndefined]
    by simp
  moreover have "resolveReturnData strict_externals JUndefined None JNull JNull [] =
     Inl (JError (cannot_read ''undefined'' ''unpathedErrors''))"
    using resolveReturnData_identity [OF none, THEN conjunct2, THEN conjunct2, THEN conjunct1,
        rule_format, OF undef] .
  ultimately show ?thesis by blast
qed

text \<open>
  Two sources that are not returned: a \<^verbatim>\<open>GraphQLError\<close>, which is an \<^verbatim>\<open>Error\<close>, gives its
  \<^verbatim>\<open>originalError\<close>, with a path or without; \<^verbatim>\<open>null\<close> with no path makes the test for
  an external object throw.
\<close>

theorem graphql_error_source_counterexample:
  "resolveReturnData stub_externals (JGraphQLError ''wrapped'' (JError ''cause'')) None
      JNull JNull []
     = Inr (JError ''cause'')
   \<and> resolveReturnData stub_externals (JGraphQLError ''wrapped'' (JError ''cause''))
      (Some ''user'') JNull JNull []
     = Inr (JError ''cause'')
   \<and> instanceof_Error (JGraphQLError ''wrapped'' (JError ''cause''))
   \<and> JError ''cause'' \<noteq> JGraphQLError ''wrapped'' (JError ''cause'')
   \<and> resolveReturnData strict_externals JNull None JNull JNull []
     = Inl (JError (cannot_read ''null'' ''unpathedErrors''))"
  by (simp add: resolveReturnData_def no_returnData_def strict_externals_def
      bind_result_def as_thrown_def)

subsection \<open>Resolvers of a file\<close>

lemma truthy_get_prop: "truthy d \<Longrightarrow> \<exists>v. get_prop d k = Inr v"
  by (cases d) simp_all

text \<open>
  C9, as the code has it. For a file whose module loads: when the default export is
  truthy, the contribution is its \<^verbatim>\<open>resolvers\<close> field if that is truthy, else the default
  export itself if its \<^verbatim>\<open>typeof\<close> is \<^verbatim>\<open>object\<close>, else nothing is found; the top-level
  \<^verbatim>\<open>resolvers\<close> export is looked at only when the default export is falsy. When nothing is
  found the contribution is the empty object and one warning is written; nothing is
  thrown.
\<close>

theorem load_resolvers_file_search:
  assumes "importFn (path_resolve X baseDir filePath) = Inr exported"
    and "get_prop exported ''default'' = Inr d"
    and "get_prop exported ''resolvers'' = Inr r"
  shows "(truthy d \<longrightarrow> (\<exists>dr. get_prop d ''resolvers'' = Inr dr))
    \<and> (\<forall>dr. truthy d \<and> get_prop d ''resolvers'' = Inr dr \<and> truthy dr
          \<longrightarrow> load_resolvers_file X baseDir importFn filePath = Inr (dr, []))
    \<and> (\<forall>dr. truthy d \<and> get_prop d ''resolvers'' = Inr dr \<and> \<not> truthy dr
              \<and> js_typeof d = ''object''
          \<longrightarrow> load_resolvers_file X baseDir importFn filePath = Inr (d, []))
    \<and> (\<forall>dr. truthy d \<and> get_prop d ''resolvers'' = Inr dr \<and> \<not> truthy dr
              \<and> js_typeof d \<noteq> ''object''
          \<longrightarrow> load_resolvers_file X baseDir importFn filePath =
                Inr (JObj [], [''Unable to load resolvers from file: '' @ filePath]))
    \<and> (\<not> truthy d \<and> truthy r
          \<longrightarrow> load_resolvers_file X baseDir importFn filePath = Inr (r, []))
    \<and> (\<not> truthy d \<and> \<not> truthy r
          \<longrightarrow> load_resolvers_file X baseDir importFn filePath =
                Inr (JObj [], [''Unable to load resolvers from file: '' @ filePath]))"
proof -
  have 1: "truthy d \<longrightarrow> (\<exists>dr. get_prop d ''resolvers'' = Inr dr)"
    using truthy_get_prop by blast
  have 2: "load_resolvers_file X baseDir importFn filePath = Inr (dr, [])"
    if "truthy d" and "get_prop d ''resolvers'' = Inr dr" and "truthy dr" for dr
    using assms that by (simp add: load_resolvers_file_def bind_result_def as_thrown_def)
  have 3: "load_resolvers_file X baseDir importFn filePath = Inr (d, [])"
    if "truthy d" and "get_prop d ''resolvers'' = Inr dr" and "\<not> truthy dr"
      and "js_typeof d = ''object''" for dr
    using assms that by (simp add: load_resolvers_file_def bind_result_def as_thrown_def)
  have 4: "load_resolvers_file X baseDir importFn filePath =
      Inr (JObj [], [''Unable to load resolvers from file: '' @ filePath])"
    if "truthy d" and "get_prop d ''resolvers'' = Inr dr" and "\<not> truthy dr"
      and "js_typeof d \<noteq> ''object''" for dr
    using assms that by (simp add: load_resolvers_file_def bind_result_def as_thrown_def)
  have 5: "load_resolvers_file X baseDir importFn filePath = Inr (r, [])"
    if "\<not> truthy d" and "truthy r"
    using assms that by (simp add: load_resolvers_file_def bind_result_def as_thrown_def)
  have 6: "load_resolvers_file X baseDir importFn filePath =
      Inr (JObj [], [''Unable to load resolvers from file: '' @ filePath])"
    if "\<not> truthy d" and "\<not> truthy r"
    using assms that by (simp add: load_resolvers_file_def bind_result_def as_thrown_def)
  from 1 2 3 4 5 6 show ?thesis by blast
qed

theorem load_resolvers_file_search_witness:
  "load_resolvers_file stub_externals ''/app''
      (import_only ''/app/r.js'' (Inr (JObj [(''resolvers'', JObj [(''Query'', JObj [])])])))
      ''r.js''
     = Inr (JObj [(''Query'', JObj [])], [])
   \<and> load_resolvers_file stub_externals ''/app''
      (import_only ''/app/r.js'' (Inr (JObj [(''default'', JObj [(''Query'', JObj [])])])))
      ''r.js''
     = Inr (JObj [(''Query'', JObj [])], [])
   \<and> load_resolvers_file stub_externals ''/app''
      (import_only ''/app/r.js'' (Inr (JObj [(''other'', JNum 1)]))) ''r.js''
     = Inr (JObj [], [''Unable to load resolvers from file: r.js''])"
proof -
  have path: "path_resolve stub_externals ''/app'' ''r.js'' = ''/app/r.js''"
    by (simp add: stub_externals_def)
  have loaded: "import_only ''/app/r.js'' (Inr exported)
      (path_resolve stub_externals ''/app'' ''r.js'') = Inr exported" for exported
    by (simp add: path import_only_def)
  have "load_resolvers_file stub_externals ''/app''
      (import_only ''/app/r.js'' (Inr (JObj [(''resolvers'', JObj [(''Query'', JObj [])])])))
      ''r.js''
     = Inr (JObj [(''Query'', JObj [])], [])"
    using load_resolvers_file_search [where X = stub_externals and baseDir = "''/app''"
        and filePath = "''r.js''" and importFn = "import_only ''/app/r.js'' (Inr (JObj [(''resolvers'', JObj [(''Query'', JObj [])])]))"
        and exported = "JObj [(''resolvers'', JObj [(''Query'', JObj [])])]" and d = "JUndefined" and r = "JObj [(''Query'', JObj [])]"]
      loaded
    by simp
  moreover have "load_resolvers_file stub_externals ''/app''
      (import_only ''/app/r.js'' (Inr (JObj [(''default'', JObj [(''Query'', JObj [])])])))
      ''r.js''
     = Inr (JObj [(''Query'', JObj [])], [])"
    using load_resolvers_file_search [where X = stub_externals and baseDir = "''/app''"
        and filePath = "''r.js''" and importFn = "import_only ''/app/r.js'' (Inr (JObj [(''default'', JObj [(''Query'', JObj [])])]))"
        and exported = "JObj [(''default'', JObj [(''Query'', JObj [])])]" and d = "JObj [(''Query'', JObj [])]" and r = "JUndefined"]
      loaded
    by simp
  moreover have "load_resolvers_file stub_externals ''/app''
      (import_only ''/app/r.js'' (Inr (JObj [(''other'', JNum 1)]))) ''r.js''
     = Inr (JObj [], [''Unable to load resolvers from file: r.js''])"
    using load_resolvers_file_search [where X = stub_externals and baseDir = "''/app''"
        and filePath = "''r.js''" and importFn = "import_only ''/app/r.js'' (Inr (JObj [(''other'', JNum 1)]))"
        and exported = "JObj [(''other'', JNum 1)]" and d = "JUndefined" and r = "JUndefined"]
      loaded
    by simp
  ultimately show ?thesis by blast
qed

text \<open>
  A module whose default export is a function, beside a top-level \<^verbatim>\<open>resolvers\<close> export:
  the top-level export is not looked at, and the file contributes nothing.
\<close>

theorem default_function_counterexample:
  "load_resolvers_file stub_externals ''/app''
      (import_only ''/app/r.js''
        (Inr (JObj [(''default'', JFun ''setup''), (''resolvers'', JObj [(''Query'', JObj [])])])))
      ''r.js''
     = Inr (JObj [], [''Unable to load resolvers from file: r.js''])
   \<and> get_prop (JObj [(''default'', JFun ''setup''), (''resolvers'', JObj [(''Query'', JObj [])])])
        ''resolvers''
     = Inr (JObj [(''Query'', JObj [])])"
  by (simp add: load_resolvers_file_def bind_result_def as_thrown_def import_only_def
      stub_externals_def)

subsection \<open>The method-call resolver\<close>

lemma fulfilled_map:
  "\<forall>x\<in>set xs. f x = Inr (g x) \<Longrightarrow> fulfilled (map f xs) = Some (map g xs)"
  by (induction xs) simp_all

lemma promise_all_fulfilled:
  "\<forall>x\<in>set xs. f x = Inr (g x) \<Longrightarrow> promise_all order (map f xs) = Inr (map g xs)"
  using fulfilled_map [of xs f g] by (simp add: promise_all_def)

text \<open>
  C10. In the revision with the fan-out, when the arguments are not an array and the
  backend call returns an \<^verbatim>\<open>Error\<close> instance, the resolver returns \<^verbatim>\<open>null\<close>, whatever
  the delegation engine and \<^verbatim>\<open>resolveReturnData\<close> would do with that value.
\<close>

theorem stitching_resolve_scalar_error:
  assumes "normalizeMethodArgs X (sr_args ar)
             \<lparr>rd_root = root, rd_args = args, rd_context = ctx, rd_info = info\<rparr> = Inr methodArgs"
    and "\<not> isArray methodArgs"
    and "get_prop info ''returnType'' = Inr info_returnType"
    and "getNullableType X info_returnType = Inr outputType"
    and "call_target ctx ar methodArgs = Inr result"
    and "instanceof_Error result"
  shows "stitching_resolve X ar order root args ctx info = Inr JNull"
proof -
  have cast: "castArray methodArgs = [methodArgs]"
    using assms(2) by (cases methodArgs) simp_all
  have elem: "call_element X ar ctx info outputType methodArgs = Inr JNull"
    using assms(5,6) by (simp add: call_element_def bind_result_def)
  have "promise_all order [call_element X ar ctx info outputType methodArgs] = Inr [JNull]"
    using elem by (simp add: promise_all_def)
  then show ?thesis
    using assms(1-4) cast
    by (simp add: stitching_resolve_def bind_result_def as_thrown_def)
qed

lemma fulfilled_None: "Inl e \<in> set ps \<Longrightarrow> fulfilled ps = None"
proof (induction ps)
  case Nil
  then show ?case by simp
next
  case (Cons p ps)
  then show ?case by (cases p) auto
qed

lemma promise_all_first_rejection:
  assumes "order = before @ i # after"
    and "i < length ps"
    and "ps ! i = Inl e"
    and "\<forall>j\<in>set before. j < length ps \<longrightarrow> (\<exists>v. ps ! j = Inr v)"
  shows "promise_all order ps = Inl e"
proof -
  let ?f = "\<lambda>i. if i < length ps then (case ps ! i of Inl e \<Rightarrow> Some e | Inr v \<Rightarrow> None) else None"
  have "Inl e \<in> set ps"
    using assms(2,3) nth_mem [of i ps] by simp
  then have none: "fulfilled ps = None"
    by (rule fulfilled_None)
  have "\<forall>j\<in>set before. ?f j = None"
    using assms(4) by auto
  then have "List.map_filter ?f before = []"
    by (simp add: List.map_filter_def)
  moreover have "List.map_filter ?f (i # after) = e # List.map_filter ?f after"
    using assms(2,3) by simp
  ultimately have "\<exists>es. rejections order ps = e # es"
    by (simp add: rejections_def assms(1) List.map_filter_def)
  then show ?thesis
    using none by (auto simp: promise_all_def)
qed

lemma promise_all_rejects:
  assumes "Inl e \<in> set ps"
  shows "\<exists>r. promise_all order ps = Inl r \<and> Inl r \<in> set ps"
proof -
  have none: "fulfilled ps = None"
    using assms by (rule fulfilled_None)
  have mem: "\<forall>r\<in>set (rejections order ps). Inl r \<in> set ps"
    by (auto simp: rejections_def List.map_filter_def split: sum.splits if_splits)
      (metis nth_mem)
  have "e \<in> set (rejections order ps)"
    using assms by (force simp: rejections_def List.map_filter_def split: sum.splits)
  then obtain r rs where "rejections order ps = r # rs"
    by (cases "rejections order ps") auto
  then show ?thesis
    using none mem by (auto simp: promise_all_def)
qed

text \<open>
  C4, as the code has it. The arguments are an array, and the field has a return type to
  unwrap. One call of the backend is made for each element, and what it gives for that
  element depends on that call alone: a call that rejects is a failure, a result that is
  an \<^verbatim>\<open>Error\<close> instance gives \<^verbatim>\<open>null\<close>, any other result gives what
  \<^verbatim>\<open>resolveReturnData\<close> makes of it, thrown or returned. When no element fails, the resolver
  returns an array as long as the arguments, each position holding what its own element
  gave, in whatever order the calls settle. When an element fails, the resolver returns
  no array: it rejects with the reason of a failing element, the first of them to
  settle.
\<close>

theorem stitching_resolve_fan_out:
  assumes "normalizeMethodArgs X (sr_args ar)
             \<lparr>rd_root = root, rd_args = args, rd_context = ctx, rd_info = info\<rparr> = Inr (JArr elems)"
    and "get_prop info ''returnType'' = Inr info_returnType"
    and "getNullableType X info_returnType = Inr outputType"
    and "get_prop outputType ''ofType'' = Inr returnType"
  shows "(\<forall>e.
            (\<forall>r. call_target ctx ar e = Inl r
               \<longrightarrow> call_element X ar ctx info returnType e = Inl r)
          \<and> (\<forall>result. call_target ctx ar e = Inr result \<and> instanceof_Error result
               \<longrightarrow> call_element X ar ctx info returnType e = Inr JNull)
          \<and> (\<forall>result. call_target ctx ar e = Inr result \<and> \<not> instanceof_Error result
               \<longrightarrow> call_element X ar ctx info returnType e =
                     resolveReturnData X result (sr_returnData ar) (ctx_value ctx) info
                       [returnType]))
    \<and> ((\<forall>e\<in>set elems. \<exists>v. call_element X ar ctx info returnType e = Inr v)
          \<longrightarrow> (\<exists>out. stitching_resolve X ar order root args ctx info = Inr (JArr out)
                \<and> length out = length elems
                \<and> (\<forall>i<length elems.
                      call_element X ar ctx info returnType (elems ! i) = Inr (out ! i))))
    \<and> (\<forall>before i after r.
          order = before @ i # after \<and> i < length elems
          \<and> call_element X ar ctx info returnType (elems ! i) = Inl r
          \<and> (\<forall>j\<in>set before. j < length elems
                \<longrightarrow> (\<exists>v. call_element X ar ctx info returnType (elems ! j) = Inr v))
          \<longrightarrow> stitching_resolve X ar order root args ctx info = Inl r)
    \<and> ((\<exists>e\<in>set elems. \<exists>r. call_element X ar ctx info returnType e = Inl r)
          \<longrightarrow> (\<exists>r. stitching_resolve X ar order root args ctx info = Inl r
                \<and> (\<exists>e\<in>set elems. call_element X ar ctx info returnType e = Inl r)))"
proof -
  let ?call = "call_element X ar ctx info returnType"
  let ?SR = "stitching_resolve X ar order root args ctx info"
  have SR: "?SR = bind_result (promise_all order (map ?call elems)) (\<lambda>results. Inr (JArr results))"
    using assms
    by (simp add: stitching_resolve_def bind_result_def as_thrown_def split: sum.splits)
  have element: "(\<forall>r. call_target ctx ar e = Inl r \<longrightarrow> ?call e = Inl r)
      \<and> (\<forall>result. call_target ctx ar e = Inr result \<and> instanceof_Error result
            \<longrightarrow> ?call e = Inr JNull)
      \<and> (\<forall>result. call_target ctx ar e = Inr result \<and> \<not> instanceof_Error result
            \<longrightarrow> ?call e =
                  resolveReturnData X result (sr_returnData ar) (ctx_value ctx) info [returnType])"
    for e
    by (simp add: call_element_def bind_result_def)
  have all: "\<exists>out. ?SR = Inr (JArr out) \<and> length out = length elems
      \<and> (\<forall>i<length elems. ?call (elems ! i) = Inr (out ! i))"
    if ok: "\<forall>e\<in>set elems. \<exists>v. ?call e = Inr v"
  proof -
    define g where "g = (\<lambda>e. projr (?call e))"
    have each: "\<forall>e\<in>set elems. ?call e = Inr (g e)"
      using ok by (auto simp: g_def)
    have "promise_all order (map ?call elems) = Inr (map g elems)"
      using promise_all_fulfilled [OF each] .
    then have "?SR = Inr (JArr (map g elems))"
      using SR by (simp add: bind_result_def)
    moreover have "\<forall>i<length elems. ?call (elems ! i) = Inr (map g elems ! i)"
      using each by simp
    ultimately show ?thesis
      by (intro exI [of _ "map g elems"]) simp
  qed
  have first: "?SR = Inl r"
    if "order = before @ i # after" and "i < length elems" and "?call (elems ! i) = Inl r"
      and "\<forall>j\<in>set before. j < length elems \<longrightarrow> (\<exists>v. ?call (elems ! j) = Inr v)"
    for before i after r
  proof -
    have "promise_all order (map ?call elems) = Inl r"
      using that by (intro promise_all_first_rejection [of order before i after]) auto
    then show ?thesis using SR by (simp add: bind_result_def)
  qed
  have some: "\<exists>r. ?SR = Inl r \<and> (\<exists>e\<in>set elems. ?call e = Inl r)"
    if "\<exists>e\<in>set elems. \<exists>r. ?call e = Inl r"
  proof -
    from that obtain e r where "e \<in> set elems" "?call e = Inl r" by blast
    then have "Inl r \<in> set (map ?call elems)" by force
    from promise_all_rejects [OF this, of order]
    obtain r' where "promise_all order (map ?call elems) = Inl r'"
      "Inl r' \<in> set (map ?call elems)" by blast
    then show ?thesis using SR by (auto simp: bind_result_def)
  qed
  from element all first some show ?thesis by blast
qed

lemma stub_call_target:
  "call_target stub_context stub_resolver e = stub_book e (call_options stub_resolver)"
  by (simp add: call_target_def stub_context_def stub_resolver_def bind_result_def)

lemma stub_returnData: "sr_returnData stub_resolver = None"
  by (simp add: stub_resolver_def)

lemma stub_plain_result:
  "\<not> instanceof_Error v \<Longrightarrow> \<not> stub_external v \<Longrightarrow>
     resolveReturnData stub_externals v None c i rest = Inr v"
  by (cases v) (simp_all add: resolveReturnData_def no_returnData_def stub_isExternalObject
      bind_result_def)

lemma stub_call_element:
  "call_element stub_externals stub_resolver stub_context stub_info rt e =
     (if e = JNum 0 then Inl (JError ''connection refused'')
      else if e = JNum 2 then Inr JNull
      else if e = JNum 4 then Inr JNull
      else if e = JNum 5 then Inl (JError ''timeout'')
      else Inr (JObj [(''id'', e)]))"
  using stub_plain_result [of "JObj [(''id'', e)]" "ctx_value stub_context" stub_info "[rt]"]
    stub_plain_result [of JNull "ctx_value stub_context" stub_info "[rt]"]
  by (simp add: call_element_def stub_call_target stub_book_def bind_result_def
      stub_returnData stub_external_def)

lemma stub_methodArgs:
  "normalizeMethodArgs X (sr_args stub_resolver)
      \<lparr>rd_root = root, rd_args = args, rd_context = c, rd_info = i\<rparr> = Inr args"
  by (simp add: stub_resolver_def)

lemma stub_info_returnType:
  "get_prop stub_info ''returnType'' = Inr (JObj [(''ofType'', JStr ''Book'')])"
  by (simp add: stub_info_def)

lemma stub_getNullableType: "getNullableType stub_externals t = Inr t"
  by (simp add: stub_externals_def)

lemma strict_getNullableType: "getNullableType strict_externals t = Inr t"
  by (simp add: strict_externals_def stub_externals_def)

theorem stitching_resolve_scalar_error_witness:
  "stitching_resolve stub_externals stub_resolver [0] JNull (JNum 2) stub_context stub_info
     = Inr JNull"
proof -
  have h2: "\<not> isArray (JNum 2)"
    by simp
  have h5: "call_target stub_context stub_resolver (JNum 2) = Inr (JError ''no such book'')"
    by (simp add: stub_call_target stub_book_def)
  have h6: "instanceof_Error (JError ''no such book'')"
    by simp
  show ?thesis
    using stitching_resolve_scalar_error [OF stub_methodArgs h2 stub_info_returnType
        stub_getNullableType h5 h6] .
qed

theorem stitching_resolve_fan_out_witness:
  "(\<exists>out. stitching_resolve stub_externals stub_resolver [2, 0, 1] JNull
        (JArr [JNum 1, JNum 2, JNum 3]) stub_context stub_info = Inr (JArr out)
     \<and> length out = 3
     \<and> out ! 0 = JObj [(''id'', JNum 1)]
     \<and> out ! 1 = JNull
     \<and> out ! 2 = JObj [(''id'', JNum 3)])
   \<and> stitching_resolve stub_externals stub_resolver [1, 2, 0] JNull
        (JArr [JNum 0, JNum 1, JNum 5]) stub_context stub_info = Inl (JError ''timeout'')
   \<and> stitching_resolve stub_externals stub_resolver [1, 0, 2] JNull
        (JArr [JNum 0, JNum 1, JNum 5]) stub_context stub_info
       = Inl (JError ''connection refused'')"
proof -
  have h4: "get_prop (JObj [(''ofType'', JStr ''Book'')]) ''ofType'' = Inr (JStr ''Book'')"
    by simp
  note fan = stitching_resolve_fan_out [OF stub_methodArgs stub_info_returnType
      stub_getNullableType h4]
  let ?elems = "[JNum 1, JNum 2, JNum 3]"
  let ?call = "call_element stub_externals stub_resolver stub_context stub_info (JStr ''Book'')"
  have ok: "\<forall>e\<in>set ?elems. \<exists>v. ?call e = Inr v"
    by (simp add: stub_call_element)
  from fan [THEN conjunct2, THEN conjunct1, THEN mp, OF ok]
  obtain out where
    res: "stitching_resolve stub_externals stub_resolver [2, 0, 1] JNull (JArr ?elems)
            stub_context stub_info = Inr (JArr out)"
    and len: "length out = length ?elems"
    and nth: "\<forall>i<length ?elems. ?call (?elems ! i) = Inr (out ! i)"
    by blast
  have "out ! 0 = JObj [(''id'', JNum 1)]"
    using nth [rule_format, of 0] by (simp add: stub_call_element)
  moreover have "out ! 1 = JNull"
    using nth [rule_format, of 1] by (simp add: stub_call_element)
  moreover have "out ! 2 = JObj [(''id'', JNum 3)]"
    using nth [rule_format, of 2] by (simp add: stub_call_element)
  ultimately have success: "\<exists>out. stitching_resolve stub_externals stub_resolver [2, 0, 1] JNull
        (JArr ?elems) stub_context stub_info = Inr (JArr out)
     \<and> length out = 3
     \<and> out ! 0 = JObj [(''id'', JNum 1)]
     \<and> out ! 1 = JNull
     \<and> out ! 2 = JObj [(''id'', JNum 3)]"
    using res len by simp
  have late: "stitching_resolve stub_externals stub_resolver [1, 2, 0] JNull
        (JArr [JNum 0, JNum 1, JNum 5]) stub_context stub_info = Inl (JError ''timeout'')"
    by (rule fan [THEN conjunct2, THEN conjunct2, THEN conjunct1, rule_format,
          where before = "[1]" and i = 2 and after = "[0]"])
      (simp add: stub_call_element)
  have early: "stitching_resolve stub_externals stub_resolver [1, 0, 2] JNull
        (JArr [JNum 0, JNum 1, JNum 5]) stub_context stub_info
       = Inl (JError ''connection refused'')"
    by (rule fan [THEN conjunct2, THEN conjunct2, THEN conjunct1, rule_format,
          where before = "[1]" and i = 0 and after = "[2]"])
      (simp add: stub_call_element)
  from success late early show ?thesis by blast
qed

text \<open>
  Two arrays of arguments for which no array is returned. A call that rejects is not
  recovered: the resolver rejects with its reason. And with a test for external objects
  that throws on \<^verbatim>\<open>null\<close>, a backend result \<^verbatim>\<open>null\<close>, which is no \<^verbatim>\<open>Error\<close>, makes
  \<^verbatim>\<open>resolveReturnData\<close> throw, and the resolver reject, though every call has fulfilled.
\<close>

theorem rejected_call_counterexample:
  "stitching_resolve stub_externals stub_resolver [0, 1] JNull (JArr [JNum 1, JNum 0])
      stub_context stub_info
     = Inl (JError ''connection refused'')
   \<and> call_target stub_context stub_resolver (JNum 1) = Inr (JObj [(''id'', JNum 1)])
   \<and> call_target stub_context stub_resolver (JNum 0) = Inl (JError ''connection refused'')
   \<and> stitching_resolve strict_externals stub_resolver [0, 1] JNull (JArr [JNum 1, JNum 4])
      stub_context stub_info
     = Inl (JError (cannot_read ''null'' ''unpathedErrors''))
   \<and> call_target stub_context stub_resolver (JNum 4) = Inr JNull"
proof -
  have h4: "promise_all [0, 1]
      (map (call_element stub_externals stub_resolver stub_context stub_info (JStr ''Book''))
        [JNum 1, JNum 0])
      = Inl (JError ''connection refused'')"
    by (simp add: stub_call_element promise_all_def rejections_def)
  have 1: "stitching_resolve stub_externals stub_resolver [0, 1] JNull (JArr [JNum 1, JNum 0])
      stub_context stub_info = Inl (JError ''connection refused'')"
    using stub_methodArgs [of stub_externals JNull "JArr [JNum 1, JNum 0]" stub_context stub_info]
      stub_info_returnType stub_getNullableType h4
    by (simp add: stitching_resolve_def bind_result_def as_thrown_def)
  have book: "call_element strict_externals stub_resolver stub_context stub_info (JStr ''Book'')
      (JNum 1) = Inr (JObj [(''id'', JNum 1)])"
    by (simp add: call_element_def stub_call_target stub_book_def bind_result_def
        stub_returnData resolveReturnData_def no_returnData_def strict_isExternalObject
        as_thrown_def)
  have null: "call_element strict_externals stub_resolver stub_context stub_info (JStr ''Book'')
      (JNum 4) = Inl (JError (cannot_read ''null'' ''unpathedErrors''))"
    by (simp add: call_element_def stub_call_target stub_book_def bind_result_def
        stub_returnData resolveReturnData_def no_returnData_def strict_isExternalObject
        as_thrown_def)
  have h5: "promise_all [0, 1]
      (map (call_element strict_externals stub_resolver stub_context stub_info (JStr ''Book''))
        [JNum 1, JNum 4])
      = Inl (JError (cannot_read ''null'' ''unpathedErrors''))"
    by (simp add: book null promise_all_def rejections_def)
  have 2: "stitching_resolve strict_externals stub_resolver [0, 1] JNull (JArr [JNum 1, JNum 4])
      stub_context stub_info = Inl (JError (cannot_read ''null'' ''unpathedErrors''))"
    using stub_methodArgs [of strict_externals JNull "JArr [JNum 1, JNum 4]" stub_context
        stub_info]
      stub_info_returnType strict_getNullableType h5
    by (simp add: stitching_resolve_def bind_result_def as_thrown_def)
  from 1 2 show ?thesis
    by (simp add: stub_call_target stub_book_def)
qed

subsection \<open>Merging\<close>

text \<open>
  When every descriptor loads, \<^verbatim>\<open>mergeResolvers\<close> is applied to the contributions in the
  order of the descriptors, whatever the order in which they settle. What becomes of two
  entries at the same \<open>[type][field]\<close> is decided by \<^verbatim>\<open>mergeResolvers\<close> alone.
\<close>

lemma resolveAdditionalResolvers_order:
  assumes "\<forall>d\<in>set ds. load_resolver X baseDir importFn d = Inr (g d)"
  shows "fst (resolveAdditionalResolvers X mergeResolvers order baseDir ds importFn) =
           Inr (mergeResolvers (map (\<lambda>d. fst (g d)) ds))"
  using promise_all_fulfilled [OF assms, of order]
  by (simp add: resolveAdditionalResolvers_def bind_result_def Let_def comp_def)

text \<open>The warnings of two files come in the order in which the files settle.\<close>

lemma resolveAdditionalResolvers_warnings:
  "snd (resolveAdditionalResolvers stub_externals mergeResolvers [1, 0] ''/app''
      [FilePath ''a.js'', FilePath ''b.js''] (\<lambda>p. Inr (JObj []))) =
     [''Unable to load resolvers from file: b.js'', ''Unable to load resolvers from file: a.js'']"
  by (simp add: resolveAdditionalResolvers_def settle_order_def load_resolvers_file_def
      bind_result_def as_thrown_def Let_def)

end
